theory Spec2Isabelle
  imports Main "HOL-Library.AList"
begin

section \<open>JavaScript values of chat-server.js\<close>

text \<open>
  A JavaScript string is a sequence of UTF-16 code units; the message moderation of
  the server tests code units up to \<open>0xFFEF\<close>, so strings are lists of code units
  and not lists of 8-bit characters. \<open>js\<close> writes an ASCII literal.
\<close>

type_synonym jsstring = "nat list"

abbreviation js :: "string \<Rightarrow> jsstring" where
  "js s \<equiv> map of_char s"

text \<open>
  The payload of an inbound event is whatever the client sent: any JSON value.
  Numbers matter to the handlers only through their truthiness and through not
  being strings, so they are integers here.
\<close>

datatype jsval =
    JUndefined
  | JNull
  | JBool bool
  | JNum int
  | JStr jsstring
  | JArr "jsval list"
  | JObj "(jsstring \<times> jsval) list"

fun truthy :: "jsval \<Rightarrow> bool" where
  "truthy JUndefined = False"
| "truthy JNull = False"
| "truthy (JBool b) = b"
| "truthy (JNum n) = (n \<noteq> 0)"
| "truthy (JStr s) = (s \<noteq> [])"
| "truthy (JArr _) = True"
| "truthy (JObj _) = True"

text \<open>Truthiness of a string, and of a property that is a string or undefined/null.\<close>

definition truthyS :: "jsstring \<Rightarrow> bool" where
  "truthyS s = (s \<noteq> [])"

fun truthyO :: "jsstring option \<Rightarrow> bool" where
  "truthyO None = False"
| "truthyO (Some s) = truthyS s"

text \<open>\<open>userData.sessionToken\<close>: a property read; only an object has own properties
  that a client can send.\<close>

fun getProp :: "jsval \<Rightarrow> jsstring \<Rightarrow> jsval" where
  "getProp (JObj ps) k = (case map_of ps k of Some v \<Rightarrow> v | None \<Rightarrow> JUndefined)"
| "getProp _ k = JUndefined"

subsection \<open>Character classes and string methods\<close>

definition isUpper :: "nat \<Rightarrow> bool" where
  "isUpper c = (65 \<le> c \<and> c \<le> 90)"

definition isLower :: "nat \<Rightarrow> bool" where
  "isLower c = (97 \<le> c \<and> c \<le> 122)"

definition isDigit :: "nat \<Rightarrow> bool" where
  "isDigit c = (48 \<le> c \<and> c \<le> 57)"

definition isLetter :: "nat \<Rightarrow> bool" where
  "isLetter c = (isUpper c \<or> isLower c)"

text \<open>\<open>\w\<close> is \<open>[A-Za-z0-9_]\<close>.\<close>

definition isWord :: "nat \<Rightarrow> bool" where
  "isWord c = (isLetter c \<or> isDigit c \<or> c = 95)"

text \<open>
  \<open>\s\<close> and the characters \<open>trim\<close> strips are the same set: TAB, LF, VT, FF, CR,
  space, NBSP, U+1680, U+2000..U+200A, LS, PS, U+202F, U+205F, U+3000 and U+FEFF.
\<close>

definition isSpace :: "nat \<Rightarrow> bool" where
  "isSpace c = ((9 \<le> c \<and> c \<le> 13) \<or> c = 32 \<or> c = 160 \<or> c = 5760
      \<or> (8192 \<le> c \<and> c \<le> 8202) \<or> c = 8232 \<or> c = 8233 \<or> c = 8239
      \<or> c = 8287 \<or> c = 12288 \<or> c = 65279)"

definition trim :: "jsstring \<Rightarrow> jsstring" where
  "trim s = rev (dropWhile isSpace (rev (dropWhile isSpace s)))"

text \<open>
  \<open>toUpperCase\<close> and \<open>toLowerCase\<close> on the ASCII letters. JavaScript also maps
  letters outside ASCII; every string the server compares after a case conversion
  has passed, or is compared with one that has passed, an ASCII-only pattern, and
  the theorems below speak about such strings.
\<close>

definition toUpperCase :: "jsstring \<Rightarrow> jsstring" where
  "toUpperCase s = map (\<lambda>c. if isLower c then c - 32 else c) s"

definition toLowerCase :: "jsstring \<Rightarrow> jsstring" where
  "toLowerCase s = map (\<lambda>c. if isUpper c then c + 32 else c) s"

text \<open>\<open>s.charAt(i)\<close> is the empty string out of range.\<close>

definition charAt :: "jsstring \<Rightarrow> nat \<Rightarrow> jsstring" where
  "charAt s i = (if i < length s then [s ! i] else [])"

text \<open>\<open>s.substring(0, n)\<close>.\<close>

definition substring0 :: "jsstring \<Rightarrow> nat \<Rightarrow> jsstring" where
  "substring0 s n = take n s"

section \<open>Containers: Map and Set keep insertion order\<close>

text \<open>
  The server iterates its Maps (\<open>validateDeviceCode\<close>, \<open>isNicknameAvailable\<close>,
  \<open>saveData\<close>), and a JavaScript Map iterates in insertion order, so a Map is an
  association list: \<open>set\<close> of a present key replaces the value in place, \<open>set\<close> of
  a new key appends. A Set is the list of its elements in insertion order.
\<close>

type_synonym ('k, 'v) jsmap = "('k \<times> 'v) list"

definition mget :: "('k, 'v) jsmap \<Rightarrow> 'k \<Rightarrow> 'v option" where
  "mget m k = map_of m k"

definition mhas :: "('k, 'v) jsmap \<Rightarrow> 'k \<Rightarrow> bool" where
  "mhas m k = (map_of m k \<noteq> None)"

definition mset :: "'k \<Rightarrow> 'v \<Rightarrow> ('k, 'v) jsmap \<Rightarrow> ('k, 'v) jsmap" where
  "mset k v m = AList.update k v m"

definition mdelete :: "'k \<Rightarrow> ('k, 'v) jsmap \<Rightarrow> ('k, 'v) jsmap" where
  "mdelete k m = AList.delete k m"

definition mvalues :: "('k, 'v) jsmap \<Rightarrow> 'v list" where
  "mvalues m = map snd m"

type_synonym 'a jsset = "'a list"

definition shas :: "'a jsset \<Rightarrow> 'a \<Rightarrow> bool" where
  "shas xs x = (x \<in> set xs)"

definition sadd :: "'a \<Rightarrow> 'a jsset \<Rightarrow> 'a jsset" where
  "sadd x xs = (if x \<in> set xs then xs else xs @ [x])"

definition sdelete :: "'a \<Rightarrow> 'a jsset \<Rightarrow> 'a jsset" where
  "sdelete x xs = removeAll x xs"

section \<open>Data model\<close>

text \<open>
  The fields every user object has; the permanent record of \<open>registeredUsers\<close> adds
  the session token and the device code, the per-socket record of \<open>users\<close> adds the
  socket id and the time of joining. \<open>uid\<close> is the field \<open>id\<close>.
\<close>

record user =
  uid :: jsstring
  nickname :: jsstring
  avatarHue :: nat
  isAdmin :: bool
  ip :: jsstring

record regUser = user +
  sessionToken :: jsstring
  deviceCode :: "jsstring option"

record activeUser = user +
  socketId :: jsstring
  joinedAt :: int

record message =
  msgId :: jsstring
  msgUserId :: jsstring
  msgNickname :: jsstring
  msgAvatarHue :: nat
  msgText :: jsstring
  timestamp :: int

section \<open>Device codes\<close>

definition chars :: jsstring where
  "chars = js ''ABCDEFGHIJKLMNOPQRSTUVWXYZ0123456789''"

text \<open>
  \<open>Math.floor(Math.random() * chars.length)\<close> is an input: \<open>rnd k\<close> is the value
  of the \<open>k\<close>-th draw. \<open>generateDeviceCode\<close> makes four draws from position
  \<open>p\<close> on.
\<close>

definition generateDeviceCode :: "(nat \<Rightarrow> nat) \<Rightarrow> nat \<Rightarrow> jsstring" where
  "generateDeviceCode rnd p =
     charAt chars (rnd p) @ charAt chars (rnd (p + 1))
       @ charAt chars (rnd (p + 2)) @ charAt chars (rnd (p + 3))"

text \<open>\<open>Array.from(registeredUsers.values()).some(user => user.deviceCode === code)\<close>.\<close>

definition codeAssigned :: "(jsstring, regUser) jsmap \<Rightarrow> jsstring \<Rightarrow> bool" where
  "codeAssigned regs code = list_ex (\<lambda>u. deviceCode u = Some code) (mvalues regs)"

text \<open>
  The do-while loop of \<open>generateUniqueDeviceCode\<close>: \<open>attempts\<close> is the counter on
  entry to the body, \<open>p\<close> the number of draws made so far.
\<close>

function generateUniqueLoop ::
  "(jsstring, regUser) jsmap \<Rightarrow> (nat \<Rightarrow> nat) \<Rightarrow> nat \<Rightarrow> nat \<Rightarrow> jsstring" where
  "generateUniqueLoop regs rnd attempts p =
     (let code = generateDeviceCode rnd p;
          attempts' = attempts + 1
      in if attempts' > 100
         then generateDeviceCode rnd (p + 4) @ substring0 (generateDeviceCode rnd (p + 8)) 2
         else if codeAssigned regs code
           then generateUniqueLoop regs rnd attempts' (p + 4)
           else code)"
  by pat_completeness auto
termination
  by (relation "measure (\<lambda>(regs, rnd, attempts, p). 100 - attempts)") auto

declare generateUniqueLoop.simps [simp del]

definition generateUniqueDeviceCode ::
  "(jsstring, regUser) jsmap \<Rightarrow> (nat \<Rightarrow> nat) \<Rightarrow> jsstring" where
  "generateUniqueDeviceCode regs rnd = generateUniqueLoop regs rnd 0 0"

text \<open>
  \<open>validateDeviceCode\<close>: the scan \<open>for (const [userId, user] of registeredUsers)\<close>
  returns the first user, in insertion order, that holds the code.
\<close>

fun scanDeviceCode :: "(jsstring, regUser) jsmap \<Rightarrow> jsstring \<Rightarrow> regUser option" where
  "scanDeviceCode [] code = None"
| "scanDeviceCode ((userId, u) # rest) code =
     (if deviceCode u = Some code then Some u else scanDeviceCode rest code)"

definition validateDeviceCode :: "(jsstring, regUser) jsmap \<Rightarrow> jsval \<Rightarrow> regUser option" where
  "validateDeviceCode regs v =
     (case v of
        JStr code \<Rightarrow> if \<not> truthy v then None else scanDeviceCode regs code
      | _ \<Rightarrow> None)"

section \<open>Server state\<close>

text \<open>
  What a connection handler's closure holds for one socket: the address computed
  by \<open>getClientIP\<close> at connection time, \<open>socket.userId\<close> and
  \<open>socket.clientFingerprint\<close> (both undefined until set).
\<close>

record socket =
  clientIP :: jsstring
  sockUserId :: "jsstring option"
  clientFingerprint :: "jsstring option"

text \<open>
  The module-level variables of chat-server.js, and \<open>sockets\<close> for
  \<open>io.sockets.sockets\<close>: the connected sockets whose handlers are registered.
\<close>

record state =
  users :: "(jsstring, activeUser) jsmap"
  userSessions :: "(jsstring, jsstring jsset) jsmap"
  registeredUsers :: "(jsstring, regUser) jsmap"
  sessionTokens :: "(jsstring, jsstring) jsmap"
  messages :: "message list"
  bannedUsers :: "jsstring jsset"
  bannedNicknames :: "jsstring jsset"
  bannedIPs :: "jsstring jsset"
  bannedFingerprints :: "jsstring jsset"
  userFingerprints :: "(jsstring, jsstring) jsmap"
  userLastMessages :: "(jsstring, jsstring) jsmap"
  adminId :: "jsstring option"
  allConnections :: "jsstring jsset"
  sockets :: "(jsstring, socket) jsmap"

definition emptyState :: state where
  "emptyState = \<lparr>users = [], userSessions = [], registeredUsers = [], sessionTokens = [],
     messages = [], bannedUsers = [], bannedNicknames = [], bannedIPs = [],
     bannedFingerprints = [], userFingerprints = [], userLastMessages = [],
     adminId = None, allConnections = [], sockets = []\<rparr>"

definition MESSAGE_RETENTION_TIME :: int where
  "MESSAGE_RETENTION_TIME = 24 * 60 * 60 * 1000"

subsection \<open>What a handler sends\<close>

datatype loginKind = Registered | IsRejoin | IsDeviceLogin

datatype event =
    EBanned
  | EOnlineCount nat
  | ESessionValid jsstring jsstring nat bool jsstring
  | EInvalidSession
  | ENicknameAccepted jsstring jsstring nat "jsstring option" jsstring bool loginKind
  | EMessageHistory "message list"
  | EUserJoined jsstring nat
  | EUserLeft jsstring nat bool
  | EMessage message
  | EMessageDeleted jsstring
  | EDeviceCodeGenerated jsstring
  | EDeviceCodeDeleted
  | EError jsstring

text \<open>
  \<open>ENicknameAccepted\<close> carries the user's id, nickname, hue, then \<open>deviceCode\<close>,
  \<open>sessionToken\<close>, \<open>isAdmin\<close> and which of \<open>isRejoin\<close>, \<open>isDeviceLogin\<close> is set.
  \<open>Emit sid e\<close> is \<open>socket.emit\<close> on the socket \<open>sid\<close>, \<open>Broadcast e\<close> is
  \<open>io.emit\<close>, \<open>ForceDisconnect sid\<close> is \<open>socket.disconnect(true)\<close> and
  \<open>SaveData\<close> a call of \<open>saveData()\<close>, in the order the handler makes them.
\<close>

datatype effect =
    Emit jsstring event
  | Broadcast event
  | ForceDisconnect jsstring
  | SaveData

text \<open>A handler that throws: no handler of the server catches.\<close>

datatype jserror = TypeError

type_synonym outcome = "state \<times> effect list"

definition errorTo :: "jsstring \<Rightarrow> string \<Rightarrow> effect" where
  "errorTo sid m = Emit sid (EError (js m))"

text \<open>
  \<open>messages.filter(msg => msg.timestamp > Date.now() - MESSAGE_RETENTION_TIME)\<close>;
  \<open>Date.now()\<close> is an input of each handler and one value while it runs.
\<close>

definition recentMessages :: "state \<Rightarrow> int \<Rightarrow> message list" where
  "recentMessages s now = filter (\<lambda>msg. timestamp msg > now - MESSAGE_RETENTION_TIME) (messages s)"

section \<open>Session tokens\<close>

definition validateSessionToken :: "state \<Rightarrow> jsval \<Rightarrow> regUser option" where
  "validateSessionToken s v =
     (case v of
        JStr tok \<Rightarrow>
          if \<not> truthy v then None
          else (case mget (sessionTokens s) tok of
                  None \<Rightarrow> None
                | Some userId \<Rightarrow>
                    if \<not> truthyS userId \<or> \<not> mhas (registeredUsers s) userId then None
                    else (case mget (registeredUsers s) userId of
                            None \<Rightarrow> None
                          | Some u \<Rightarrow> if sessionToken u \<noteq> tok then None else Some u))
      | _ \<Rightarrow> None)"

text \<open>
  \<open>cookies.match(/chatSession=([^;]+)/)\<close>: the leftmost place where the name is
  followed by at least one character other than \<open>;\<close>, and the run of such characters.
\<close>

fun cookieMatch :: "jsstring \<Rightarrow> jsstring option" where
  "cookieMatch [] = None"
| "cookieMatch (c # cs) =
     (let k = js ''chatSession='';
          run = takeWhile (\<lambda>x. x \<noteq> 59) (drop (length k) (c # cs))
      in if take (length k) (c # cs) = k \<and> run \<noteq> [] then Some run else cookieMatch cs)"

text \<open>
  The rotation both the connection handler and \<open>rejoin\<close> make when the address
  changed. A user object is stored under its own id, so the assignments to the object
  reached through the Map and \<open>registeredUsers.set(user.id, user)\<close> are one update.
\<close>

definition rotateToken :: "state \<Rightarrow> regUser \<Rightarrow> jsstring \<Rightarrow> jsstring \<Rightarrow> state" where
  "rotateToken s u ipNew newSessionToken =
     s\<lparr>sessionTokens := mset newSessionToken (uid u) (mdelete (sessionToken u) (sessionTokens s)),
       registeredUsers := mset (uid u) (u\<lparr>ip := ipNew, sessionToken := newSessionToken\<rparr>)
          (registeredUsers s)\<rparr>"

section \<open>Nicknames\<close>

fun nicknameScan :: "(jsstring, regUser) jsmap \<Rightarrow> jsstring \<Rightarrow> jsstring option \<Rightarrow> bool" where
  "nicknameScan [] lowerNickname excludeUserId = True"
| "nicknameScan ((userId, u) # rest) lowerNickname excludeUserId =
     (if Some userId \<noteq> excludeUserId \<and> toLowerCase (nickname u) = lowerNickname then False
      else nicknameScan rest lowerNickname excludeUserId)"

definition isNicknameAvailable :: "state \<Rightarrow> jsstring \<Rightarrow> jsstring option \<Rightarrow> bool" where
  "isNicknameAvailable s nick excludeUserId =
     (let lowerNickname = toLowerCase nick
      in if shas (bannedNicknames s) lowerNickname then False
         else nicknameScan (registeredUsers s) lowerNickname excludeUserId)"

text \<open>\<open>/^[A-Z0-9]{4,6}$/\<close> and \<open>/^[a-zA-Z0-9_]+$/\<close>.\<close>

definition isCodeChar :: "nat \<Rightarrow> bool" where
  "isCodeChar c = (isUpper c \<or> isDigit c)"

definition codeShape :: "jsstring \<Rightarrow> bool" where
  "codeShape s = (4 \<le> length s \<and> length s \<le> 6 \<and> list_all isCodeChar s)"

definition englishOnly :: "jsstring \<Rightarrow> bool" where
  "englishOnly s = (s \<noteq> [] \<and> list_all isWord s)"

section \<open>Message moderation\<close>

text \<open>A pattern without anchors matches when it matches at some start position.\<close>

fun anySuffix :: "(jsstring \<Rightarrow> bool) \<Rightarrow> jsstring \<Rightarrow> bool" where
  "anySuffix P [] = P []"
| "anySuffix P (c # cs) = (P (c # cs) \<or> anySuffix P cs)"

text \<open>
  A lower-case ASCII literal under the flag \<open>i\<close>: without the flag \<open>u\<close> a
  character outside ASCII never matches an ASCII one.
\<close>

definition ciPrefix :: "jsstring \<Rightarrow> jsstring \<Rightarrow> bool" where
  "ciPrefix p s = (length p \<le> length s \<and> toLowerCase (take (length p) s) = p)"

definition nonSpaceAt :: "nat \<Rightarrow> jsstring \<Rightarrow> bool" where
  "nonSpaceAt n s = (case drop n s of [] \<Rightarrow> False | c # _ \<Rightarrow> \<not> isSpace c)"

definition tlds :: "jsstring list" where
  "tlds = map js [''com'', ''ru'', ''net'', ''org'', ''io'', ''gg'', ''xyz'', ''me'', ''co'',
     ''uk'', ''us'', ''tv'', ''yt'', ''cc'', ''link'', ''site'', ''online'', ''store'',
     ''app'', ''dev'', ''tech'']"

text \<open>The three alternatives of \<open>urlRegex\<close>, each at a start position.\<close>

definition schemeAt :: "jsstring \<Rightarrow> bool" where
  "schemeAt s = ((ciPrefix (js ''http://'') s \<and> nonSpaceAt 7 s)
      \<or> (ciPrefix (js ''https://'') s \<and> nonSpaceAt 8 s))"

definition wwwAt :: "jsstring \<Rightarrow> bool" where
  "wwwAt s = (ciPrefix (js ''www.'') s \<and> nonSpaceAt 4 s)"

definition domainAt :: "jsstring \<Rightarrow> bool" where
  "domainAt s =
     (case s of
        c # d # rest \<Rightarrow> (isLetter c \<or> isDigit c \<or> c = 45) \<and> d = 46
           \<and> list_ex (\<lambda>t. ciPrefix t rest) tlds
      | _ \<Rightarrow> False)"

definition hasLink :: "jsstring \<Rightarrow> bool" where
  "hasLink t = anySuffix (\<lambda>s. schemeAt s \<or> wwwAt s \<or> domainAt s) t"

text \<open>\<open>/@\w+/\<close>.\<close>

definition hasMention :: "jsstring \<Rightarrow> bool" where
  "hasMention t = anySuffix (\<lambda>s. case s of a # b # _ \<Rightarrow> a = 64 \<and> isWord b | _ \<Rightarrow> False) t"

text \<open>\<open>lettersOnly.length >= 3 && lettersOnly === lettersOnly.toUpperCase()\<close>.\<close>

definition isShouting :: "jsstring \<Rightarrow> bool" where
  "isShouting t =
     (let lettersOnly = filter isLetter t
      in length lettersOnly \<ge> 3 \<and> lettersOnly = toUpperCase lettersOnly)"

text \<open>
  The character class of \<open>hasNonEnglish\<close>: the Cyrillic letters it lists, and the
  blocks U+0400, CJK, Hiragana, Katakana, Hangul, Hebrew, Arabic and its supplement,
  Devanagari, and the fullwidth forms.
\<close>

definition nonEnglishChar :: "nat \<Rightarrow> bool" where
  "nonEnglishChar c =
     ((1072 \<le> c \<and> c \<le> 1103) \<or> (1040 \<le> c \<and> c \<le> 1071) \<or> c = 1105 \<or> c = 1025
      \<or> (1024 \<le> c \<and> c \<le> 1279) \<or> (19968 \<le> c \<and> c \<le> 40959)
      \<or> (12352 \<le> c \<and> c \<le> 12447) \<or> (12448 \<le> c \<and> c \<le> 12543)
      \<or> (44032 \<le> c \<and> c \<le> 55215) \<or> (1424 \<le> c \<and> c \<le> 1535)
      \<or> (1536 \<le> c \<and> c \<le> 1791) \<or> (1872 \<le> c \<and> c \<le> 1919)
      \<or> (2304 \<le> c \<and> c \<le> 2431) \<or> (65280 \<le> c \<and> c \<le> 65519))"

definition hasNonEnglish :: "jsstring \<Rightarrow> bool" where
  "hasNonEnglish t = list_ex nonEnglishChar t"

section \<open>The connection handler\<close>

text \<open>
  \<open>io.on('connection', ...)\<close> up to the registration of the event handlers. A
  connection that is turned away gets no handlers and is not kept in \<open>sockets\<close>.
\<close>

definition onConnection ::
  "state \<Rightarrow> jsstring \<Rightarrow> jsstring \<Rightarrow> jsstring option \<Rightarrow> jsstring \<Rightarrow> outcome" where
  "onConnection s sid addr cookies newSessionToken =
     (let s1 = s\<lparr>allConnections := sadd sid (allConnections s)\<rparr>
      in if shas (bannedIPs s1) addr
         then (s1\<lparr>allConnections := sdelete sid (allConnections s1)\<rparr>,
               [Emit sid EBanned, ForceDisconnect sid])
         else
           let sock = \<lparr>clientIP = addr, sockUserId = None, clientFingerprint = None\<rparr>;
               s2 = s1\<lparr>sockets := mset sid sock (sockets s1)\<rparr>;
               count = Broadcast (EOnlineCount (length (allConnections s1)))
           in case (case cookies of None \<Rightarrow> None | Some c \<Rightarrow> cookieMatch c) of
                None \<Rightarrow> (s2, [count])
              | Some tok \<Rightarrow>
                  (case validateSessionToken s2 (JStr tok) of
                     None \<Rightarrow> (s2, [count, Emit sid EInvalidSession])
                   | Some u \<Rightarrow>
                       if shas (bannedUsers s2) (uid u)
                       then (s1\<lparr>allConnections := sdelete sid (allConnections s1)\<rparr>,
                             [count, Emit sid EBanned, ForceDisconnect sid])
                       else if ip u \<noteq> addr
                       then (rotateToken s2 u addr newSessionToken,
                             [count, SaveData,
                              Emit sid (ESessionValid (uid u) (nickname u) (avatarHue u)
                                (isAdmin u) newSessionToken)])
                       else (s2, [count,
                              Emit sid (ESessionValid (uid u) (nickname u) (avatarHue u)
                                (isAdmin u) tok)])))"

section \<open>setFingerprint\<close>

definition onSetFingerprint :: "state \<Rightarrow> jsstring \<Rightarrow> socket \<Rightarrow> jsval \<Rightarrow> outcome" where
  "onSetFingerprint s sid sock v =
     (case v of
        JStr fingerprint \<Rightarrow>
          if \<not> truthy v then (s, [])
          else
            let s1 = s\<lparr>sockets := mset sid (sock\<lparr>clientFingerprint := Some fingerprint\<rparr>) (sockets s)\<rparr>
            in if shas (bannedFingerprints s1) fingerprint
               then (s1\<lparr>allConnections := sdelete sid (allConnections s1)\<rparr>,
                     [Emit sid EBanned, ForceDisconnect sid])
               else (s1, [])
      | _ \<Rightarrow> (s, []))"

section \<open>setNickname\<close>

text \<open>
  The two guards that open \<open>setNickname\<close> and \<open>rejoin\<close>: a banned address, then
  a banned fingerprint.
\<close>

definition originBanned :: "state \<Rightarrow> socket \<Rightarrow> bool" where
  "originBanned s sock =
     (shas (bannedIPs s) (clientIP sock)
      \<or> (case clientFingerprint sock of
            None \<Rightarrow> False
          | Some fp \<Rightarrow> truthyS fp \<and> shas (bannedFingerprints s) fp))"

text \<open>
  \<open>userSessions.get(id).add(socket.id)\<close>, after the Set was created when absent.
\<close>

definition trackSession :: "jsstring \<Rightarrow> jsstring \<Rightarrow> (jsstring, jsstring jsset) jsmap
    \<Rightarrow> (jsstring, jsstring jsset) jsmap" where
  "trackSession userId sid m =
     mset userId (sadd sid (case mget m userId of None \<Rightarrow> [] | Some ss \<Rightarrow> ss)) m"

text \<open>The branch of \<open>setNickname\<close> taken when the text is a device code in use.\<close>

definition deviceLogin ::
  "state \<Rightarrow> jsstring \<Rightarrow> socket \<Rightarrow> regUser \<Rightarrow> jsstring \<Rightarrow> int \<Rightarrow> outcome" where
  "deviceLogin s sid sock deviceCodeUser newSessionToken now =
     (if shas (bannedUsers s) (uid deviceCodeUser) then (s, [Emit sid EBanned])
      else
        let notices =
              (case mget (userSessions s) (uid deviceCodeUser) of
                 None \<Rightarrow> []
               | Some ss \<Rightarrow>
                   map (\<lambda>x. Emit x EDeviceCodeDeleted) (filter (\<lambda>x. mhas (sockets s) x) ss));
            activeUser = \<lparr>uid = uid deviceCodeUser, nickname = nickname deviceCodeUser,
              avatarHue = avatarHue deviceCodeUser, isAdmin = isAdmin deviceCodeUser,
              ip = clientIP sock, socketId = sid, joinedAt = now\<rparr>;
            s' = s\<lparr>registeredUsers :=
                    mset (uid deviceCodeUser) (deviceCodeUser\<lparr>deviceCode := None\<rparr>) (registeredUsers s),
                  sessionTokens := mset newSessionToken (uid deviceCodeUser) (sessionTokens s),
                  users := mset sid activeUser (users s),
                  sockets := mset sid (sock\<lparr>sockUserId := Some (uid deviceCodeUser)\<rparr>) (sockets s),
                  userSessions := trackSession (uid deviceCodeUser) sid (userSessions s)\<rparr>
        in (s', [SaveData] @ notices @
              [Emit sid (ENicknameAccepted (uid deviceCodeUser) (nickname deviceCodeUser)
                 (avatarHue deviceCodeUser) None newSessionToken (isAdmin deviceCodeUser)
                 IsDeviceLogin),
               Emit sid (EMessageHistory (recentMessages s now)),
               Broadcast (EUserJoined (nickname deviceCodeUser) (length (allConnections s)))]))"

text \<open>
  The registration of a new user; \<open>nick\<close> is \<open>None\<close> for a falsy payload.
  \<open>uuidv4()\<close>, \<open>generateSessionToken()\<close> and \<open>generateAvatarHue()\<close> are inputs.
\<close>

definition registerUser ::
  "state \<Rightarrow> jsstring \<Rightarrow> socket \<Rightarrow> jsstring option \<Rightarrow> jsstring \<Rightarrow> jsstring \<Rightarrow> nat \<Rightarrow> int
    \<Rightarrow> outcome" where
  "registerUser s sid sock nick newSessionToken userId hue now =
     (case nick of
        None \<Rightarrow> (s, [errorTo sid ''Nickname must be 3-20 characters''])
      | Some n \<Rightarrow>
          if length (trim n) < 3 \<or> length n > 20
          then (s, [errorTo sid ''Nickname must be 3-20 characters''])
          else if \<not> englishOnly n
          then (s, [errorTo sid
            ''Nickname must contain only English letters, numbers, and underscores''])
          else if \<not> isNicknameAvailable s n None
          then (s, [errorTo sid ''Nickname already taken''])
          else
            let admin = (\<not> truthyO (adminId s) \<and> toLowerCase n = js ''mefisto'');
                u = \<lparr>uid = userId, nickname = n, avatarHue = hue, isAdmin = admin,
                  ip = clientIP sock, socketId = sid, joinedAt = now\<rparr>;
                s' = s\<lparr>adminId := (if admin then Some userId else adminId s),
                      users := mset sid u (users s),
                      sockets := mset sid (sock\<lparr>sockUserId := Some userId\<rparr>) (sockets s),
                      userFingerprints :=
                        (case clientFingerprint sock of
                           None \<Rightarrow> userFingerprints s
                         | Some fp \<Rightarrow> if truthyS fp then mset userId fp (userFingerprints s)
                             else userFingerprints s),
                      registeredUsers := mset userId
                        \<lparr>uid = userId, nickname = n, avatarHue = hue, isAdmin = admin,
                          ip = clientIP sock, sessionToken = newSessionToken, deviceCode = None\<rparr>
                        (registeredUsers s),
                      sessionTokens := mset newSessionToken userId (sessionTokens s)\<rparr>
            in (s', [SaveData,
                  Emit sid (ENicknameAccepted userId n hue None newSessionToken admin Registered),
                  Emit sid (EMessageHistory (recentMessages s now)),
                  Broadcast (EUserJoined n (length (allConnections s)))]))"

text \<open>
  \<open>nickname && /^[A-Z0-9]{4,6}$/.test(nickname.toUpperCase())\<close>: a truthy payload
  that is not a string has no method \<open>toUpperCase\<close>, and the call throws.
\<close>

definition truthyString :: "jsval \<Rightarrow> jserror + jsstring option" where
  "truthyString v =
     (if \<not> truthy v then Inr None
      else case v of JStr n \<Rightarrow> Inr (Some n) | _ \<Rightarrow> Inl TypeError)"

definition onSetNickname ::
  "state \<Rightarrow> jsstring \<Rightarrow> socket \<Rightarrow> jsval \<Rightarrow> jsstring \<Rightarrow> jsstring \<Rightarrow> nat \<Rightarrow> int
    \<Rightarrow> jserror + outcome" where
  "onSetNickname s sid sock v newSessionToken userId hue now =
     (if originBanned s sock then Inr (s, [Emit sid EBanned, ForceDisconnect sid])
      else case truthyString v of
             Inl e \<Rightarrow> Inl e
           | Inr nick \<Rightarrow>
               (case (case nick of
                        None \<Rightarrow> None
                      | Some n \<Rightarrow>
                          if codeShape (toUpperCase n)
                          then validateDeviceCode (registeredUsers s) (JStr (toUpperCase n))
                          else None) of
                  Some deviceCodeUser \<Rightarrow>
                    Inr (deviceLogin s sid sock deviceCodeUser newSessionToken now)
                | None \<Rightarrow> Inr (registerUser s sid sock nick newSessionToken userId hue now)))"

section \<open>rejoin\<close>

definition onRejoin ::
  "state \<Rightarrow> jsstring \<Rightarrow> socket \<Rightarrow> jsval \<Rightarrow> jsstring \<Rightarrow> int \<Rightarrow> outcome" where
  "onRejoin s sid sock userData newSessionToken now =
     (if originBanned s sock then (s, [Emit sid EBanned, ForceDisconnect sid])
      else if \<not> truthy userData \<or> \<not> truthy (getProp userData (js ''sessionToken''))
      then (s, [errorTo sid ''Invalid session data''])
      else case validateSessionToken s (getProp userData (js ''sessionToken'')) of
             None \<Rightarrow> (s, [Emit sid EInvalidSession])
           | Some u \<Rightarrow>
               if shas (bannedUsers s) (uid u) then (s, [Emit sid EBanned])
               else
                 let changed = (ip u \<noteq> clientIP sock);
                     s1 = (if changed then rotateToken s u (clientIP sock) newSessionToken else s);
                     tok = (if changed then newSessionToken else sessionToken u);
                     activeUser = \<lparr>uid = uid u, nickname = nickname u, avatarHue = avatarHue u,
                       isAdmin = isAdmin u, ip = clientIP sock, socketId = sid, joinedAt = now\<rparr>;
                     s' = s1\<lparr>users := mset sid activeUser (users s1),
                            sockets := mset sid (sock\<lparr>sockUserId := Some (uid u)\<rparr>) (sockets s1),
                            userSessions := trackSession (uid u) sid (userSessions s1)\<rparr>
                 in (s', (if changed then [SaveData] else []) @
                       [Emit sid (ENicknameAccepted (uid u) (nickname u) (avatarHue u)
                          (deviceCode u) tok (isAdmin u) IsRejoin),
                        Emit sid (EMessageHistory (recentMessages s now)),
                        Broadcast (EUserJoined (nickname u) (length (allConnections s)))]))"

section \<open>generateDeviceCode\<close>

text \<open>
  \<open>socket.userId && users.has(socket.id)\<close>, the guard of \<open>generateDeviceCode\<close>,
  \<open>message\<close> and \<open>disconnect\<close>: \<open>socket.userId\<close> and \<open>users.get(socket.id)\<close>
  when it holds.
\<close>

definition attributed :: "state \<Rightarrow> jsstring \<Rightarrow> socket \<Rightarrow> (jsstring \<times> activeUser) option" where
  "attributed s sid sock =
     (case sockUserId sock of
        None \<Rightarrow> None
      | Some userId \<Rightarrow>
          if \<not> truthyS userId then None else map_option (Pair userId) (mget (users s) sid))"

definition onGenerateDeviceCode ::
  "state \<Rightarrow> jsstring \<Rightarrow> socket \<Rightarrow> (nat \<Rightarrow> nat) \<Rightarrow> outcome" where
  "onGenerateDeviceCode s sid sock rnd =
     (case attributed s sid sock of
        None \<Rightarrow> (s, [errorTo sid ''You must be logged in''])
      | Some (userId, u) \<Rightarrow>
               (case mget (registeredUsers s) (uid u) of
                  None \<Rightarrow> (s, [errorTo sid ''User not found''])
                | Some registeredUser \<Rightarrow>
                    let newDeviceCode = generateUniqueDeviceCode (registeredUsers s) rnd
                    in (s\<lparr>registeredUsers := mset (uid u)
                             (registeredUser\<lparr>deviceCode := Some newDeviceCode\<rparr>) (registeredUsers s)\<rparr>,
                        [SaveData, Emit sid (EDeviceCodeGenerated newDeviceCode)])))"

section \<open>message\<close>

text \<open>
  \<open>!messageText || messageText.trim().length === 0 || messageText.length > 100\<close>:
  a truthy payload that is not a string has no method \<open>trim\<close>, and the call throws.
  After the guards on the sender the checks run in the order of the source.
\<close>

definition onMessage ::
  "state \<Rightarrow> jsstring \<Rightarrow> socket \<Rightarrow> jsval \<Rightarrow> jsstring \<Rightarrow> int \<Rightarrow> jserror + outcome" where
  "onMessage s sid sock messageText newId now =
     (case attributed s sid sock of
        None \<Rightarrow> Inr (s, [errorTo sid ''You must set a nickname first''])
      | Some (userId, u) \<Rightarrow>
          if shas (bannedUsers s) userId then Inr (s, [Emit sid EBanned])
          else case truthyString messageText of
                 Inl e \<Rightarrow> Inl e
               | Inr None \<Rightarrow> Inr (s, [errorTo sid ''Message must be 1-100 characters''])
               | Inr (Some t) \<Rightarrow>
                   if length (trim t) = 0 \<or> length t > 100
                   then Inr (s, [errorTo sid ''Message must be 1-100 characters''])
                   else
                     let trimmedMessage = trim t
                     in if hasLink trimmedMessage
                        then Inr (s, [errorTo sid ''Links are not allowed in chat''])
                        else if hasMention trimmedMessage
                        then Inr (s, [errorTo sid ''Mentions (@username) are not allowed''])
                        else if mget (userLastMessages s) userId = Some trimmedMessage
                        then Inr (s, [errorTo sid ''Cannot send duplicate messages''])
                        else if isShouting trimmedMessage
                        then Inr (s, [errorTo sid ''Please do not use all CAPS''])
                        else if hasNonEnglish trimmedMessage
                        then Inr (s, [errorTo sid ''Only English language is allowed in chat''])
                        else
                          let msg = \<lparr>msgId = newId, msgUserId = uid u, msgNickname = nickname u,
                                msgAvatarHue = avatarHue u, msgText = trimmedMessage,
                                timestamp = now\<rparr>;
                              s' = s\<lparr>userLastMessages :=
                                      mset userId trimmedMessage (userLastMessages s),
                                    messages := messages s @ [msg]\<rparr>
                          in Inr (s', (if length (messages s') mod 10 = 0 then [SaveData] else [])
                                   @ [Broadcast (EMessage msg)]))"

section \<open>banUser\<close>

text \<open>
  \<open>for (let i = messages.length - 1; i >= 0; i--)\<close> with \<open>splice(i, 1)\<close>: the
  second argument is \<open>i + 1\<close>, the third collects \<open>messagesToRemove\<close>.
\<close>

fun removeLoop :: "message list \<Rightarrow> nat \<Rightarrow> jsstring \<Rightarrow> jsstring list
    \<Rightarrow> message list \<times> jsstring list" where
  "removeLoop msgs 0 targetUserId acc = (msgs, acc)"
| "removeLoop msgs (Suc i) targetUserId acc =
     (if msgUserId (msgs ! i) = targetUserId
      then removeLoop (take i msgs @ drop (Suc i) msgs) i targetUserId (acc @ [msgId (msgs ! i)])
      else removeLoop msgs i targetUserId acc)"

text \<open>
  The address of the admin, \<open>null\<close> when there is none, and the rule that this
  address is never banned.
\<close>

definition adminIP :: "state \<Rightarrow> jsstring option" where
  "adminIP s =
     (case adminId s of
        None \<Rightarrow> None
      | Some a \<Rightarrow> if truthyS a then map_option ip (mget (registeredUsers s) a) else None)"

definition banIP :: "state \<Rightarrow> regUser \<Rightarrow> jsstring jsset" where
  "banIP s targetUserData =
     (if truthyS (ip targetUserData) \<and> Some (ip targetUserData) \<noteq> adminIP s
      then sadd (ip targetUserData) (bannedIPs s)
      else bannedIPs s)"

text \<open>
  The sockets of the target that \<open>userSessions\<close> tracks: each connected one is told
  and disconnected, and each is removed from \<open>users\<close>.
\<close>

definition kickEffects :: "state \<Rightarrow> jsstring list \<Rightarrow> effect list" where
  "kickEffects s ss =
     concat (map (\<lambda>x. if mhas (sockets s) x then [Emit x EBanned, ForceDisconnect x] else []) ss)"

definition onBanUser :: "state \<Rightarrow> jsstring \<Rightarrow> socket \<Rightarrow> jsval \<Rightarrow> outcome" where
  "onBanUser s sid sock targetUserId =
     (if \<not> truthyO (sockUserId sock) \<or> sockUserId sock \<noteq> adminId s
      then (s, [errorTo sid ''Only admin can ban users''])
      else case (case targetUserId of JStr t \<Rightarrow> map_option (Pair t) (mget (registeredUsers s) t)
                 | _ \<Rightarrow> None) of
             None \<Rightarrow> (s, [errorTo sid ''User not found''])
           | Some (t, targetUserData) \<Rightarrow>
               if Some t = adminId s then (s, [errorTo sid ''Cannot ban admin''])
               else
                 let removed = removeLoop (messages s) (length (messages s)) t [];
                     tracked = (case mget (userSessions s) t of None \<Rightarrow> [] | Some ss \<Rightarrow> ss);
                     s' = s\<lparr>bannedUsers := sadd t (bannedUsers s),
                           bannedNicknames :=
                             sadd (toLowerCase (nickname targetUserData)) (bannedNicknames s),
                           bannedIPs := banIP s targetUserData,
                           bannedFingerprints :=
                             (case mget (userFingerprints s) t of
                                None \<Rightarrow> bannedFingerprints s
                              | Some fp \<Rightarrow> sadd fp (bannedFingerprints s)),
                           sessionTokens :=
                             (if truthyS (sessionToken targetUserData)
                              then mdelete (sessionToken targetUserData) (sessionTokens s)
                              else sessionTokens s),
                           messages := fst removed,
                           users := foldr mdelete tracked (users s),
                           userSessions := mdelete t (userSessions s),
                           registeredUsers := mdelete t (registeredUsers s)\<rparr>
                 in (s', map (\<lambda>m. Broadcast (EMessageDeleted m)) (snd removed)
                       @ kickEffects s tracked
                       @ [SaveData,
                          Broadcast (EUserLeft (nickname targetUserData)
                            (length (allConnections s)) True)]))"

section \<open>disconnect\<close>

definition onDisconnect :: "state \<Rightarrow> jsstring \<Rightarrow> socket \<Rightarrow> outcome" where
  "onDisconnect s sid sock =
     (let conns = sdelete sid (allConnections s);
          s1 = s\<lparr>allConnections := conns, sockets := mdelete sid (sockets s)\<rparr>;
          count = Broadcast (EOnlineCount (length conns))
      in case attributed s sid sock of
           None \<Rightarrow> (s1, [count])
         | Some (userId, u) \<Rightarrow>
             let s2 = s1\<lparr>users := mdelete sid (users s1)\<rparr>
             in case mget (userSessions s2) userId of
                  None \<Rightarrow> (s2, [count])
                | Some ss \<Rightarrow>
                    if length (sdelete sid ss) = 0
                    then (s2\<lparr>userSessions := mdelete userId (userSessions s2)\<rparr>,
                          [count, Broadcast (EUserLeft (nickname u) (length conns) False)])
                    else (s2\<lparr>userSessions := mset userId (sdelete sid ss) (userSessions s2)\<rparr>,
                          [count]))"

section \<open>The administrative endpoints and the sweep\<close>

text \<open>
  \<open>!ADMIN_KEY || adminKey !== ADMIN_KEY\<close> refuses; \<open>envKey\<close> is
  \<open>process.env.ADMIN_KEY\<close>. \<open>Respond\<close> is the status of the HTTP response.
\<close>

definition adminKeyOk :: "jsstring option \<Rightarrow> jsval \<Rightarrow> bool" where
  "adminKeyOk envKey adminKey =
     (case envKey of None \<Rightarrow> False | Some k \<Rightarrow> truthyS k \<and> adminKey = JStr k)"

datatype response = Respond nat

type_synonym restOutcome = "state \<times> effect list \<times> response"

definition clearBans :: "state \<Rightarrow> jsstring option \<Rightarrow> jsval \<Rightarrow> restOutcome" where
  "clearBans s envKey adminKey =
     (if \<not> adminKeyOk envKey adminKey then (s, [], Respond 403)
      else (s\<lparr>bannedIPs := [], bannedUsers := [], bannedNicknames := [],
              bannedFingerprints := []\<rparr>, [SaveData], Respond 200))"

definition clearUsers :: "state \<Rightarrow> jsstring option \<Rightarrow> jsval \<Rightarrow> restOutcome" where
  "clearUsers s envKey adminKey =
     (if \<not> adminKeyOk envKey adminKey then (s, [], Respond 403)
      else (s\<lparr>registeredUsers := [], sessionTokens := [], users := [], adminId := None\<rparr>,
            [SaveData], Respond 200))"

definition unbanIP :: "state \<Rightarrow> jsstring option \<Rightarrow> jsval \<Rightarrow> jsval \<Rightarrow> restOutcome" where
  "unbanIP s envKey adminKey addr =
     (if \<not> adminKeyOk envKey adminKey then (s, [], Respond 403)
      else if \<not> truthy addr then (s, [], Respond 400)
      else case addr of
             JStr a \<Rightarrow>
               if shas (bannedIPs s) a
               then (s\<lparr>bannedIPs := sdelete a (bannedIPs s)\<rparr>, [SaveData], Respond 200)
               else (s, [], Respond 404)
           | _ \<Rightarrow> (s, [], Respond 404))"

text \<open>
  The sweep of every minute:
  \<open>while (messages.length > 0 && messages[0].timestamp < cutoff) messages.shift()\<close>.
\<close>

fun sweepLoop :: "message list \<Rightarrow> int \<Rightarrow> message list" where
  "sweepLoop [] cutoff = []"
| "sweepLoop (m # ms) cutoff = (if timestamp m < cutoff then sweepLoop ms cutoff else m # ms)"

definition sweep :: "state \<Rightarrow> int \<Rightarrow> outcome" where
  "sweep s now =
     (let kept = sweepLoop (messages s) (now - MESSAGE_RETENTION_TIME);
          removedCount = length (messages s) - length kept
      in (s\<lparr>messages := kept\<rparr>, if removedCount > 0 then [SaveData] else []))"

section \<open>Snapshots\<close>

text \<open>
  The document \<open>saveData\<close> builds; the store keeps it as it is. \<open>slice (-1000)\<close>
  is the last 1000 elements, or all of a shorter array.
\<close>

record snapshot =
  snapRegisteredUsers :: "(jsstring \<times> regUser) list"
  snapSessionTokens :: "(jsstring \<times> jsstring) list"
  snapMessages :: "message list"
  snapBannedUsers :: "jsstring list"
  snapBannedNicknames :: "jsstring list"
  snapBannedIPs :: "jsstring list"
  snapBannedFingerprints :: "jsstring list"
  snapUserFingerprints :: "(jsstring \<times> jsstring) list"
  snapAdminId :: "jsstring option"
  snapTimestamp :: int

definition sliceLast :: "nat \<Rightarrow> 'a list \<Rightarrow> 'a list" where
  "sliceLast n xs = drop (length xs - n) xs"

definition saveData :: "state \<Rightarrow> int \<Rightarrow> snapshot" where
  "saveData s now =
     \<lparr>snapRegisteredUsers = registeredUsers s,
      snapSessionTokens = sessionTokens s,
      snapMessages = sliceLast 1000 (messages s),
      snapBannedUsers = bannedUsers s,
      snapBannedNicknames = bannedNicknames s,
      snapBannedIPs = bannedIPs s,
      snapBannedFingerprints = bannedFingerprints s,
      snapUserFingerprints = userFingerprints s,
      snapAdminId = adminId s,
      snapTimestamp = now\<rparr>"

text \<open>\<open>entries.forEach(([k, v]) => map.set(k, v))\<close> and \<open>xs.forEach(x => set.add(x))\<close>.\<close>

definition setAll :: "('k \<times> 'v) list \<Rightarrow> ('k, 'v) jsmap \<Rightarrow> ('k, 'v) jsmap" where
  "setAll entries m = foldl (\<lambda>acc (k, v). mset k v acc) m entries"

definition addAll :: "'a list \<Rightarrow> 'a jsset \<Rightarrow> 'a jsset" where
  "addAll xs st = foldl (\<lambda>acc x. sadd x acc) st xs"

text \<open>\<open>loadData\<close>; \<open>data\<close> is the document found, \<open>None\<close> when there is none.\<close>

definition loadData :: "state \<Rightarrow> snapshot option \<Rightarrow> int \<Rightarrow> state" where
  "loadData s data now =
     (case data of
        None \<Rightarrow> s
      | Some d \<Rightarrow>
          s\<lparr>registeredUsers := setAll (snapRegisteredUsers d) (registeredUsers s),
            sessionTokens := setAll (snapSessionTokens d) (sessionTokens s),
            messages := messages s
              @ filter (\<lambda>msg. timestamp msg > now - MESSAGE_RETENTION_TIME) (snapMessages d),
            bannedUsers := addAll (snapBannedUsers d) (bannedUsers s),
            bannedNicknames := addAll (snapBannedNicknames d) (bannedNicknames s),
            bannedIPs := addAll (snapBannedIPs d) (bannedIPs s),
            bannedFingerprints := addAll (snapBannedFingerprints d) (bannedFingerprints s),
            userFingerprints := setAll (snapUserFingerprints d) (userFingerprints s),
            adminId := (if truthyO (snapAdminId d) then snapAdminId d else adminId s)\<rparr>)"

section \<open>The server as a transition system\<close>

text \<open>
  One input is one event the process handles to completion: a connection, an event
  of a connected socket with its payload, a request to an administrative endpoint,
  or a tick of the sweep. The values of \<open>generateSessionToken()\<close>, \<open>uuidv4()\<close>,
  \<open>generateAvatarHue()\<close>, \<open>Math.random()\<close> and \<open>Date.now()\<close> a handler uses are
  part of the input. An event of a socket that is not connected has no handler.
  \<open>socket.disconnect(true)\<close> is an effect; the \<open>disconnect\<close> event it causes is
  the input \<open>Disconnect\<close> of that socket.
\<close>

datatype input =
    Connection jsstring jsstring "jsstring option" jsstring
  | SetFingerprint jsstring jsval
  | SetNickname jsstring jsval jsstring jsstring nat int
  | Rejoin jsstring jsval jsstring int
  | GenerateDeviceCode jsstring "nat \<Rightarrow> nat"
  | Message jsstring jsval jsstring int
  | BanUser jsstring jsval
  | Disconnect jsstring
  | ClearBans "jsstring option" jsval
  | ClearUsers "jsstring option" jsval
  | UnbanIP "jsstring option" jsval jsval
  | Sweep int

definition withSocket :: "state \<Rightarrow> jsstring \<Rightarrow> (socket \<Rightarrow> jserror + outcome) \<Rightarrow> jserror + outcome" where
  "withSocket s sid handler =
     (case mget (sockets s) sid of None \<Rightarrow> Inr (s, []) | Some sock \<Rightarrow> handler sock)"

definition restStep :: "restOutcome \<Rightarrow> jserror + outcome" where
  "restStep r = Inr (fst r, fst (snd r))"

fun step :: "state \<Rightarrow> input \<Rightarrow> jserror + outcome" where
  "step s (Connection sid addr cookies tok) = Inr (onConnection s sid addr cookies tok)"
| "step s (SetFingerprint sid v) = withSocket s sid (\<lambda>sock. Inr (onSetFingerprint s sid sock v))"
| "step s (SetNickname sid v tok userId hue now) =
     withSocket s sid (\<lambda>sock. onSetNickname s sid sock v tok userId hue now)"
| "step s (Rejoin sid v tok now) = withSocket s sid (\<lambda>sock. Inr (onRejoin s sid sock v tok now))"
| "step s (GenerateDeviceCode sid rnd) =
     withSocket s sid (\<lambda>sock. Inr (onGenerateDeviceCode s sid sock rnd))"
| "step s (Message sid v newId now) = withSocket s sid (\<lambda>sock. onMessage s sid sock v newId now)"
| "step s (BanUser sid v) = withSocket s sid (\<lambda>sock. Inr (onBanUser s sid sock v))"
| "step s (Disconnect sid) = withSocket s sid (\<lambda>sock. Inr (onDisconnect s sid sock))"
| "step s (ClearBans envKey adminKey) = restStep (clearBans s envKey adminKey)"
| "step s (ClearUsers envKey adminKey) = restStep (clearUsers s envKey adminKey)"
| "step s (UnbanIP envKey adminKey addr) = restStep (unbanIP s envKey adminKey addr)"
| "step s (Sweep now) = Inr (sweep s now)"

text \<open>
  A run handles the inputs in turn and collects what was sent; an uncaught exception
  ends the process.
\<close>

fun run :: "state \<Rightarrow> input list \<Rightarrow> jserror + outcome" where
  "run s [] = Inr (s, [])"
| "run s (i # inputs) =
     (case step s i of
        Inl e \<Rightarrow> Inl e
      | Inr (s', out) \<Rightarrow>
          (case run s' inputs of Inl e \<Rightarrow> Inl e | Inr (s'', out') \<Rightarrow> Inr (s'', out @ out')))"

text \<open>
  What the generators guarantee: \<open>uuidv4()\<close> and \<open>generateSessionToken()\<close>
  return non-empty strings, \<open>generateAvatarHue()\<close> a number below 360.
\<close>

fun generated :: "input \<Rightarrow> bool" where
  "generated (Connection sid addr cookies tok) = (tok \<noteq> [])"
| "generated (SetNickname sid v tok userId hue now) = (tok \<noteq> [] \<and> userId \<noteq> [] \<and> hue < 360)"
| "generated (Rejoin sid v tok now) = (tok \<noteq> [])"
| "generated (Message sid v newId now) = (newId \<noteq> [])"
| "generated _ = True"

text \<open>
  The states a deployment can be in: the empty state of a fresh process, what a
  handled input leaves, and what a restart loads from a snapshot saved before.
\<close>

inductive reachable :: "state \<Rightarrow> bool" where
  fresh: "reachable emptyState"
| handled: "reachable s \<Longrightarrow> generated i \<Longrightarrow> step s i = Inr (s', out) \<Longrightarrow> reachable s'"
| restarted: "reachable s \<Longrightarrow> reachable (loadData emptyState (Some (saveData s t)) t')"

section \<open>What every reachable state satisfies\<close>

text \<open>
  A nickname that passed the checks of the registration; a registry entry that is
  stored under its own id, has such a nickname, and is an admin only if it is the
  user \<open>adminId\<close> names and is called mefisto.
\<close>

definition validNickname :: "jsstring \<Rightarrow> bool" where
  "validNickname n = (3 \<le> length n \<and> length n \<le> 20 \<and> englishOnly n)"

definition userOk :: "jsstring option \<Rightarrow> jsstring \<times> regUser \<Rightarrow> bool" where
  "userOk admin p =
     (uid (snd p) = fst p \<and> fst p \<noteq> [] \<and> validNickname (nickname (snd p))
      \<and> (if isAdmin (snd p)
         then admin = Some (fst p) \<and> toLowerCase (nickname (snd p)) = js ''mefisto''
         else True))"

definition consistent :: "state \<Rightarrow> bool" where
  "consistent s =
     (distinct (map fst (registeredUsers s))
      \<and> distinct (bannedUsers s) \<and> distinct (bannedNicknames s)
      \<and> distinct (bannedIPs s) \<and> distinct (bannedFingerprints s)
      \<and> adminId s \<noteq> Some []
      \<and> list_all (userOk (adminId s)) (registeredUsers s))"

section \<open>Concrete inputs\<close>

text \<open>
  The code \<open>generateUniqueDeviceCode\<close> returns when it gives up: the expression
  of its fallback branch, drawn after the \<open>p\<close> draws made before.
\<close>

definition fallbackCode :: "(nat \<Rightarrow> nat) \<Rightarrow> nat \<Rightarrow> jsstring" where
  "fallbackCode rnd p =
     generateDeviceCode rnd (p + 4) @ substring0 (generateDeviceCode rnd (p + 8)) 2"

text \<open>A random source whose every draw is 0, so that every code drawn is AAAA.\<close>

definition zeroDraws :: "nat \<Rightarrow> nat" where
  "zeroDraws k = 0"

text \<open>A registry with one user, who holds the code AAAA.\<close>

definition aliceWithCode :: "(jsstring, regUser) jsmap" where
  "aliceWithCode =
     [(js ''u1'', \<lparr>uid = js ''u1'', nickname = js ''alice'', avatarHue = 10, isAdmin = False,
        ip = js ''10.0.0.1'', sessionToken = js ''t1'', deviceCode = Some (js ''AAAA'')\<rparr>)]"

text \<open>
  Three users register on three connections and each asks for a device code while
  every draw is 0; then a fourth connection types the code of the last two.
\<close>

definition threeUsers :: "input list" where
  "threeUsers =
     [Connection (js ''s1'') (js ''10.0.0.1'') None (js ''x1''),
      SetNickname (js ''s1'') (JStr (js ''alice'')) (js ''t1'') (js ''u1'') 10 1000,
      Connection (js ''s2'') (js ''10.0.0.2'') None (js ''x2''),
      SetNickname (js ''s2'') (JStr (js ''bobby'')) (js ''t2'') (js ''u2'') 20 2000,
      Connection (js ''s3'') (js ''10.0.0.3'') None (js ''x3''),
      SetNickname (js ''s3'') (JStr (js ''carol'')) (js ''t3'') (js ''u3'') 30 3000]"

definition threeCodes :: "input list" where
  "threeCodes =
     [GenerateDeviceCode (js ''s1'') zeroDraws,
      GenerateDeviceCode (js ''s2'') zeroDraws,
      GenerateDeviceCode (js ''s3'') zeroDraws]"

definition fourthTypesCode :: "input list" where
  "fourthTypesCode =
     [Connection (js ''s4'') (js ''10.0.0.4'') None (js ''x4''),
      SetNickname (js ''s4'') (JStr (js ''aaaaaa'')) (js ''t4'') (js ''u4'') 40 4000]"

text \<open>The device code each registered user holds, in the order of the registry.\<close>

definition codesHeld :: "state \<Rightarrow> (jsstring \<times> jsstring option) list" where
  "codesHeld s = map (\<lambda>(userId, u). (userId, deviceCode u)) (registeredUsers s)"

text \<open>The state a run ends in, and \<open>socket.userId\<close> of a socket there.\<close>

definition finalState :: "jserror + outcome \<Rightarrow> state option" where
  "finalState r = (case r of Inl e \<Rightarrow> None | Inr (s, out) \<Rightarrow> Some s)"

definition attributedTo :: "state \<Rightarrow> jsstring \<Rightarrow> jsstring option" where
  "attributedTo s sid = (case mget (sockets s) sid of None \<Rightarrow> None | Some sock \<Rightarrow> sockUserId sock)"

text \<open>What a run sent, and the user a token validates as in the state it ends in.\<close>

definition effects :: "jserror + outcome \<Rightarrow> effect list" where
  "effects r = (case r of Inl e \<Rightarrow> [] | Inr (s, out) \<Rightarrow> out)"

definition validatesAs :: "jserror + outcome \<Rightarrow> jsstring \<Rightarrow> jsstring option" where
  "validatesAs r tok =
     (case finalState r of
        None \<Rightarrow> None
      | Some s \<Rightarrow> map_option uid (validateSessionToken s (JStr tok)))"

text \<open>
  A user registers and asks for a device code (AAAA, every draw being 0); a second
  connection types the code.
\<close>

definition deviceLoginRun :: "input list" where
  "deviceLoginRun =
     [Connection (js ''s1'') (js ''10.0.0.1'') None (js ''x1''),
      SetNickname (js ''s1'') (JStr (js ''alice'')) (js ''t1'') (js ''u1'') 10 1000,
      GenerateDeviceCode (js ''s1'') zeroDraws,
      Connection (js ''s2'') (js ''10.0.0.2'') None (js ''x2''),
      SetNickname (js ''s2'') (JStr (js ''AAAA'')) (js ''t2'') (js ''u2'') 20 2000]"

text \<open>
  The admin registers, a second user registers from another address, and the admin
  bans the second user; then the banned user, whose connection is still there, sends
  a message.
\<close>

definition adminBansBobby :: "input list" where
  "adminBansBobby =
     [Connection (js ''s1'') (js ''10.0.0.1'') None (js ''x1''),
      SetNickname (js ''s1'') (JStr (js ''mefisto'')) (js ''t1'') (js ''u1'') 10 1000,
      Connection (js ''s2'') (js ''10.0.0.2'') None (js ''x2''),
      SetNickname (js ''s2'') (JStr (js ''bobby'')) (js ''t2'') (js ''u2'') 20 2000,
      BanUser (js ''s1'') (JStr (js ''u2''))]"

definition bobbySpeaks :: input where
  "bobbySpeaks = Message (js ''s2'') (JStr (js ''hello'')) (js ''m1'') 3000"

text \<open>A connection that sends the number 5 as its nickname, and one as its message.\<close>

definition numberAsNickname :: "input list" where
  "numberAsNickname =
     [Connection (js ''s1'') (js ''10.0.0.1'') None (js ''x1''),
      SetNickname (js ''s1'') (JNum 5) (js ''t1'') (js ''u1'') 10 1000]"

definition numberAsMessage :: "input list" where
  "numberAsMessage =
     [Connection (js ''s1'') (js ''10.0.0.1'') None (js ''x1''),
      SetNickname (js ''s1'') (JStr (js ''alice'')) (js ''t1'') (js ''u1'') 10 1000,
      Message (js ''s1'') (JNum 5) (js ''m1'') 2000]"

section \<open>Properties of the containers and of the device codes\<close>

lemmas container_defs = mget_def mhas_def mset_def mdelete_def mvalues_def shas_def sadd_def
  sdelete_def

lemmas char_defs = isUpper_def isLower_def isDigit_def isLetter_def isWord_def isSpace_def
  isCodeChar_def

lemmas string_defs = toUpperCase_def toLowerCase_def trim_def truthyS_def codeShape_def
  englishOnly_def

lemmas handler_defs = onConnection_def onSetFingerprint_def onSetNickname_def registerUser_def
  deviceLogin_def onRejoin_def onGenerateDeviceCode_def onMessage_def onBanUser_def
  onDisconnect_def withSocket_def attributed_def truthyString_def originBanned_def
  isNicknameAvailable_def validateDeviceCode_def validateSessionToken_def rotateToken_def
  trackSession_def recentMessages_def errorTo_def emptyState_def






text \<open>
  What the loop returns, entered with the counter at \<open>a\<close> after \<open>p\<close> draws: the
  first candidate that no user holds, or, when all \<open>100 - a\<close> candidates are held,
  the fallback.
\<close>

lemma generateUniqueLoop_result:
  "a \<le> 100 \<Longrightarrow>
   (\<exists>i < 100 - a. generateUniqueLoop regs rnd a p = generateDeviceCode rnd (p + 4 * i)
        \<and> \<not> codeAssigned regs (generateDeviceCode rnd (p + 4 * i))
        \<and> (\<forall>j < i. codeAssigned regs (generateDeviceCode rnd (p + 4 * j))))
   \<or> (generateUniqueLoop regs rnd a p = fallbackCode rnd (p + 4 * (100 - a))
        \<and> (\<forall>j < 100 - a. codeAssigned regs (generateDeviceCode rnd (p + 4 * j))))"
proof (induction regs rnd a p rule: generateUniqueLoop.induct)
  case (1 regs rnd a p)
  show ?case
  proof (cases "a = 100")
    case True
    then have "generateUniqueLoop regs rnd a p = fallbackCode rnd p"
      by (subst generateUniqueLoop.simps) (simp add: fallbackCode_def)
    with True show ?thesis by simp
  next
    case False
    with "1.prems" have lt: "a < 100" by simp
    show ?thesis
    proof (cases "codeAssigned regs (generateDeviceCode rnd p)")
      case False
      with lt have "generateUniqueLoop regs rnd a p = generateDeviceCode rnd p"
        by (subst generateUniqueLoop.simps) simp
      with False lt show ?thesis
        by (intro disjI1 exI [of _ 0]) simp
    next
      case True
      with lt have eq: "generateUniqueLoop regs rnd a p = generateUniqueLoop regs rnd (a + 1) (p + 4)"
        by (subst generateUniqueLoop.simps) simp
      have ih: "(\<exists>i < 100 - (a + 1).
            generateUniqueLoop regs rnd (a + 1) (p + 4) = generateDeviceCode rnd (p + 4 + 4 * i)
          \<and> \<not> codeAssigned regs (generateDeviceCode rnd (p + 4 + 4 * i))
          \<and> (\<forall>j < i. codeAssigned regs (generateDeviceCode rnd (p + 4 + 4 * j))))
        \<or> (generateUniqueLoop regs rnd (a + 1) (p + 4)
              = fallbackCode rnd (p + 4 + 4 * (100 - (a + 1)))
          \<and> (\<forall>j < 100 - (a + 1). codeAssigned regs (generateDeviceCode rnd (p + 4 + 4 * j))))"
        using "1.IH" [OF refl refl _ True] lt by simp
      have all: "\<And>n. (\<forall>j < n. codeAssigned regs (generateDeviceCode rnd (p + 4 + 4 * j)))
          \<Longrightarrow> (\<forall>j < Suc n. codeAssigned regs (generateDeviceCode rnd (p + 4 * j)))"
      proof (intro allI impI)
        fix n j
        assume h: "\<forall>j < n. codeAssigned regs (generateDeviceCode rnd (p + 4 + 4 * j))"
          and j: "j < Suc n"
        show "codeAssigned regs (generateDeviceCode rnd (p + 4 * j))"
        proof (cases j)
          case 0
          with True show ?thesis by simp
        next
          case (Suc k)
          with j h have "codeAssigned regs (generateDeviceCode rnd (p + 4 + 4 * k))" by simp
          with Suc show ?thesis by (simp add: add.assoc)
        qed
      qed
      from ih show ?thesis
      proof
        assume "\<exists>i < 100 - (a + 1).
            generateUniqueLoop regs rnd (a + 1) (p + 4) = generateDeviceCode rnd (p + 4 + 4 * i)
          \<and> \<not> codeAssigned regs (generateDeviceCode rnd (p + 4 + 4 * i))
          \<and> (\<forall>j < i. codeAssigned regs (generateDeviceCode rnd (p + 4 + 4 * j)))"
        then obtain i where i: "i < 100 - (a + 1)"
          "generateUniqueLoop regs rnd (a + 1) (p + 4) = generateDeviceCode rnd (p + 4 + 4 * i)"
          "\<not> codeAssigned regs (generateDeviceCode rnd (p + 4 + 4 * i))"
          "\<forall>j < i. codeAssigned regs (generateDeviceCode rnd (p + 4 + 4 * j))"
          by blast
        have sh: "p + 4 + 4 * i = p + 4 * Suc i" by simp
        from i(1) have "Suc i < 100 - a" by simp
        with i(2,3) eq all [OF i(4)] show ?thesis
          unfolding sh by (intro disjI1 exI [of _ "Suc i"]) simp
      next
        assume f: "generateUniqueLoop regs rnd (a + 1) (p + 4)
              = fallbackCode rnd (p + 4 + 4 * (100 - (a + 1)))
          \<and> (\<forall>j < 100 - (a + 1). codeAssigned regs (generateDeviceCode rnd (p + 4 + 4 * j)))"
        from lt have p: "p + 4 + 4 * (100 - (a + 1)) = p + 4 * (100 - a)" by arith
        from lt have s: "100 - a = Suc (100 - (a + 1))" by arith
        from f all [of "100 - (a + 1)"]
        have "\<forall>j < 100 - a. codeAssigned regs (generateDeviceCode rnd (p + 4 * j))"
          unfolding s by blast
        moreover have "generateUniqueLoop regs rnd a p = fallbackCode rnd (p + 4 * (100 - a))"
          by (simp only: eq conjunct1 [OF f] p)
        ultimately show ?thesis by blast
      qed
    qed
  qed
qed

lemma generateUniqueDeviceCode_exhausted:
  assumes "\<forall>j < 100. codeAssigned regs (generateDeviceCode rnd (4 * j))"
  shows "generateUniqueDeviceCode regs rnd = fallbackCode rnd 400"
proof -
  from generateUniqueLoop_result [of 0 regs rnd 0]
  show ?thesis
    unfolding generateUniqueDeviceCode_def using assms by auto
qed

lemma generateUniqueDeviceCode_first:
  assumes "\<not> codeAssigned regs (generateDeviceCode rnd 0)"
  shows "generateUniqueDeviceCode regs rnd = generateDeviceCode rnd 0"
  unfolding generateUniqueDeviceCode_def using assms
  by (subst generateUniqueLoop.simps) simp

lemma zeroDraws_code: "generateDeviceCode zeroDraws p = js ''AAAA''"
  by (simp add: generateDeviceCode_def zeroDraws_def charAt_def chars_def)

lemma zeroDraws_fallback: "fallbackCode zeroDraws p = js ''AAAAAA''"
  by (simp add: fallbackCode_def zeroDraws_code substring0_def)

lemma zeroDraws_free:
  "\<not> codeAssigned regs (js ''AAAA'') \<Longrightarrow> generateUniqueDeviceCode regs zeroDraws = js ''AAAA''"
  using generateUniqueDeviceCode_first [of regs zeroDraws] by (simp add: zeroDraws_code)

lemma zeroDraws_taken:
  "codeAssigned regs (js ''AAAA'') \<Longrightarrow> generateUniqueDeviceCode regs zeroDraws = js ''AAAAAA''"
  using generateUniqueDeviceCode_exhausted [of regs zeroDraws]
  by (simp add: zeroDraws_code zeroDraws_fallback)

lemma scanDeviceCode_find:
  "scanDeviceCode regs code = find (\<lambda>u. deviceCode u = Some code) (mvalues regs)"
  by (induction regs code rule: scanDeviceCode.induct) (simp_all add: mvalues_def)

section \<open>Device-code generation (C8)\<close>




lemmas eval_defs = handler_defs container_defs char_defs string_defs Let_def
  finalState_def effects_def validatesAs_def attributedTo_def codesHeld_def
  zeroDraws_free zeroDraws_taken codeAssigned_def banIP_def adminIP_def kickEffects_def

section \<open>The fallback code is not checked (C10)\<close>

text \<open>
  C10. When each of the 100 candidates is held by a user, \<open>generateUniqueDeviceCode\<close>
  returns the fallback whatever the registry holds, so also when a user holds that
  very code. \<open>validateDeviceCode\<close> returns the first user, in the order of the
  registry, that holds the code. In the run \<open>threeUsers @ threeCodes\<close> the second and
  the third user end up holding the same code AAAAAA, and the connection that types it
  is attributed to the second user, the first of the two in the registry.
\<close>

theorem fallback_code_can_collide:
  "((\<forall>j < 100. codeAssigned regs (generateDeviceCode rnd (4 * j)))
      \<longrightarrow> generateUniqueDeviceCode regs rnd = fallbackCode rnd 400)
   \<and> validateDeviceCode regs (JStr code)
       = (if code = [] then None else find (\<lambda>u. deviceCode u = Some code) (mvalues regs))
   \<and> map_option codesHeld (finalState (run emptyState (threeUsers @ threeCodes)))
       = Some [(js ''u1'', Some (js ''AAAA'')), (js ''u2'', Some (js ''AAAAAA'')),
               (js ''u3'', Some (js ''AAAAAA''))]
   \<and> map_option (\<lambda>s. attributedTo s (js ''s4''))
         (finalState (run emptyState (threeUsers @ threeCodes @ fourthTypesCode)))
       = Some (Some (js ''u2''))"
proof (intro conjI impI)
  assume "\<forall>j < 100. codeAssigned regs (generateDeviceCode rnd (4 * j))"
  then show "generateUniqueDeviceCode regs rnd = fallbackCode rnd 400"
    by (rule generateUniqueDeviceCode_exhausted)
next
  show "validateDeviceCode regs (JStr code)
       = (if code = [] then None else find (\<lambda>u. deviceCode u = Some code) (mvalues regs))"
    by (simp add: validateDeviceCode_def scanDeviceCode_find)
next
  show "map_option codesHeld (finalState (run emptyState (threeUsers @ threeCodes)))
       = Some [(js ''u1'', Some (js ''AAAA'')), (js ''u2'', Some (js ''AAAAAA'')),
               (js ''u3'', Some (js ''AAAAAA''))]"
    by (simp add: threeUsers_def threeCodes_def eval_defs)
next
  show "map_option (\<lambda>s. attributedTo s (js ''s4''))
         (finalState (run emptyState (threeUsers @ threeCodes @ fourthTypesCode)))
       = Some (Some (js ''u2''))"
    by (simp add: threeUsers_def threeCodes_def fourthTypesCode_def eval_defs)
qed

theorem fallback_code_can_collide_witness:
  "codeAssigned aliceWithCode (js ''AAAA'')
     \<and> generateUniqueDeviceCode aliceWithCode zeroDraws = js ''AAAAAA''"
proof -
  have held: "codeAssigned aliceWithCode (js ''AAAA'')"
    by (simp add: codeAssigned_def mvalues_def aliceWithCode_def)
  then have "\<forall>j < 100. codeAssigned aliceWithCode (generateDeviceCode zeroDraws (4 * j))"
    by (simp add: zeroDraws_code)
  with fallback_code_can_collide [of aliceWithCode zeroDraws]
  have "generateUniqueDeviceCode aliceWithCode zeroDraws = fallbackCode zeroDraws 400"
    by blast
  with held show ?thesis by (simp add: zeroDraws_fallback)
qed

section \<open>The token of a device login (C1)\<close>

text \<open>
  C1 fails on the device-code branch of \<open>setNickname\<close>. In \<open>deviceLoginRun\<close> the
  second connection is sent the new token \<open>t2\<close> in \<open>nicknameAccepted\<close>, but the
  user's stored \<open>sessionToken\<close> stays \<open>t1\<close> and the entry of \<open>t1\<close> stays in
  \<open>sessionTokens\<close>: the token delivered does not validate, the prior one still does.
\<close>

theorem device_login_token_does_not_validate:
  "finalState (run emptyState deviceLoginRun) \<noteq> None
   \<and> Emit (js ''s2'') (ENicknameAccepted (js ''u1'') (js ''alice'') 10 None (js ''t2'') False
         IsDeviceLogin) \<in> set (effects (run emptyState deviceLoginRun))
   \<and> validatesAs (run emptyState deviceLoginRun) (js ''t2'') = None
   \<and> validatesAs (run emptyState deviceLoginRun) (js ''t1'') = Some (js ''u1'')"
  by (simp add: deviceLoginRun_def eval_defs)

section \<open>The banned notice without a disconnect (C6)\<close>

text \<open>
  C6 fails where \<open>message\<close> finds the sender in \<open>bannedUsers\<close>: after
  \<open>adminBansBobby\<close> the message of the banned user is answered with \<open>banned\<close>
  and nothing else; no \<open>socket.disconnect(true)\<close> follows.
\<close>

theorem banned_sender_is_not_disconnected:
  "effects (run emptyState (adminBansBobby @ [bobbySpeaks]))
     = effects (run emptyState adminBansBobby) @ [Emit (js ''s2'') EBanned]
   \<and> ForceDisconnect (js ''s2'') \<notin> set (effects (run emptyState (adminBansBobby @ [bobbySpeaks])))"
  by (simp add: adminBansBobby_def bobbySpeaks_def eval_defs)

section \<open>Payloads that are not strings (C4)\<close>

text \<open>
  C4 fails for a truthy payload that is not a string: \<open>setNickname\<close> calls
  \<open>nickname.toUpperCase()\<close> and \<open>message\<close> calls \<open>messageText.trim()\<close> on it, and
  the TypeError is not caught.
\<close>

theorem number_payload_throws:
  "run emptyState numberAsNickname = Inl TypeError
   \<and> run emptyState numberAsMessage = Inl TypeError"
  by (simp add: numberAsNickname_def numberAsMessage_def eval_defs)

end
